theory Spec2Isabelle
  imports Main
begin

section \<open>Values, exceptions and effects\<close>

text \<open>
  The tools of \<^verbatim>\<open>minimal_agent/tools.py\<close> are Python classes whose \<^verbatim>\<open>__call__\<close> method
  takes one argument. Python does not enforce the annotation \<^verbatim>\<open>query: str\<close>, so the
  argument of a call is any Python value.
\<close>

datatype pyval =
    PyNone
  | PyBool bool
  | PyInt int
  | is_PyStr: PyStr string
  | PyList "pyval list"

text \<open>
  Exceptions are values. Every constructor carries \<^verbatim>\<open>str(e)\<close>. A constructor stands for
  the instances of its class (subclasses included) that no more specific constructor
  covers: \<open>Timeout\<close> is \<^verbatim>\<open>requests.exceptions.Timeout\<close>, \<open>RequestException\<close> every other
  \<^verbatim>\<open>requests.exceptions.RequestException\<close> (bad status, connection fault),
  \<open>Exception\<close> every other subclass of \<^verbatim>\<open>Exception\<close>, and \<open>BaseException\<close> what
  does not derive from \<^verbatim>\<open>Exception\<close> (\<^verbatim>\<open>KeyboardInterrupt\<close>, \<^verbatim>\<open>SystemExit\<close>).
\<close>

datatype exn =
    ImportError string
  | Timeout string
  | RequestException string
  | DuckDuckGoSearchException string
  | KeyError string
  | AttributeError string
  | TypeError string
  | Exception string
  | BaseException string

fun str_exn :: "exn \<Rightarrow> string" where
  "str_exn (ImportError m) = m"
| "str_exn (Timeout m) = m"
| "str_exn (RequestException m) = m"
| "str_exn (DuckDuckGoSearchException m) = m"
| "str_exn (KeyError m) = m"
| "str_exn (AttributeError m) = m"
| "str_exn (TypeError m) = m"
| "str_exn (Exception m) = m"
| "str_exn (BaseException m) = m"

text \<open>\<^verbatim>\<open>isinstance(e, Exception)\<close>: what a clause \<^verbatim>\<open>except Exception\<close> catches.\<close>

fun is_Exception :: "exn \<Rightarrow> bool" where
  "is_Exception (BaseException m) = False"
| "is_Exception e = True"

text \<open>\<^verbatim>\<open>isinstance(e, DuckDuckGoSearchException)\<close>.\<close>

fun is_DuckDuckGoSearchException :: "exn \<Rightarrow> bool" where
  "is_DuckDuckGoSearchException (DuckDuckGoSearchException m) = True"
| "is_DuckDuckGoSearchException e = False"

text \<open>
  What a call does to the outside world, in order: the requests sent to the two search
  backends and the lines printed.
\<close>

datatype event =
    DDGS_text pyval int
  | is_Tavily_search: Tavily_search pyval
  | Print string

type_synonym 'a outcome = "(exn + 'a) \<times> event list"

section \<open>Dictionaries, comprehensions, joining, slicing\<close>

text \<open>
  A Python \<^verbatim>\<open>dict\<close> with string keys is an association list; \<^verbatim>\<open>d[k]\<close> raises
  \<^verbatim>\<open>KeyError\<close> on a missing key and \<^verbatim>\<open>len(d)\<close> counts the keys.
\<close>

type_synonym 'v dict = "(string \<times> 'v) list"

text \<open>\<^verbatim>\<open>repr(s)\<close> of a string without quotes or escapes: the string in single quotes.\<close>

definition repr :: "string \<Rightarrow> string" where
  "repr s = [CHR 0x27] @ s @ [CHR 0x27]"

definition getitem :: "'v dict \<Rightarrow> string \<Rightarrow> exn + 'v" where
  "getitem d k =
     (case map_of d k of
        None \<Rightarrow> Inl (KeyError (repr k))
      | Some v \<Rightarrow> Inr v)"

definition dict_len :: "'v dict \<Rightarrow> nat" where
  "dict_len d = length (remdups (map fst d))"

text \<open>A list comprehension stops at the first element whose expression raises.\<close>

fun comprehension :: "('a \<Rightarrow> exn + 'b) \<Rightarrow> 'a list \<Rightarrow> exn + 'b list" where
  "comprehension f [] = Inr []"
| "comprehension f (x # xs) =
     (case f x of
        Inl e \<Rightarrow> Inl e
      | Inr y \<Rightarrow> (case comprehension f xs of Inl e \<Rightarrow> Inl e | Inr ys \<Rightarrow> Inr (y # ys)))"

text \<open>\<^verbatim>\<open>sep.join(xs)\<close>.\<close>

fun join :: "string \<Rightarrow> string list \<Rightarrow> string" where
  "join sep [] = []"
| "join sep [x] = x"
| "join sep (x # y # ys) = x @ sep @ join sep (y # ys)"

text \<open>\<^verbatim>\<open>xs[:n]\<close>: a negative \<open>n\<close> counts from the end.\<close>

definition slice_to :: "'a list \<Rightarrow> int \<Rightarrow> 'a list" where
  "slice_to xs n = (if 0 \<le> n then take (nat n) xs else take (nat (int (length xs) + n)) xs)"

text \<open>\<^verbatim>\<open>xs[n:]\<close>, likewise.\<close>

definition slice_from :: "'a list \<Rightarrow> int \<Rightarrow> 'a list" where
  "slice_from xs n = (if 0 \<le> n then drop (nat n) xs else drop (nat (int (length xs) + n)) xs)"

text \<open>\<^verbatim>\<open>str(n)\<close> of an integer: its decimal digits, after a minus sign if it is negative.\<close>

definition digit :: "nat \<Rightarrow> char" where
  "digit d = char_of (48 + d)"

function str_nat :: "nat \<Rightarrow> string" where
  "str_nat n = (if n < 10 then [digit n] else str_nat (n div 10) @ [digit (n mod 10)])"
  by pat_completeness auto
termination
  by (relation "measure id") auto

definition str_int :: "int \<Rightarrow> string" where
  "str_int i = (if i < 0 then CHR ''-'' # str_nat (nat (- i)) else str_nat (nat i))"

section \<open>FinalAnswerTool\<close>

definition FinalAnswerTool_call :: "'a \<Rightarrow> 'a" where
  "FinalAnswerTool_call answer = answer"

section \<open>The search adapters\<close>

text \<open>One search result, as both backends return it: a dictionary of strings.\<close>

type_synonym result = "string dict"

definition no_results_message :: string where
  "no_results_message = ''No results found! Try a less restrictive/shorter query.''"

definition heading :: string where
  "heading = ''## Search Results\<newline>\<newline>''"

subsection \<open>DuckDuckGoSearchTool\<close>

text \<open>
  The tool holds its result cap and the \<^verbatim>\<open>DDGS\<close> client, of which only the method
  \<^verbatim>\<open>text(query, max_results=...)\<close> is used: it returns a list of results or raises.
\<close>

record DuckDuckGoSearchTool =
  ddg_max_results :: int
  ddgs_text :: "pyval \<Rightarrow> int \<Rightarrow> exn + result list"

text \<open>\<^verbatim>\<open>f"[{result['title']}]({result['href']})\n{result['body']}"\<close>\<close>

definition ddg_entry :: "result \<Rightarrow> exn + string" where
  "ddg_entry result =
     (case getitem result ''title'' of
        Inl e \<Rightarrow> Inl e
      | Inr title \<Rightarrow>
     (case getitem result ''href'' of
        Inl e \<Rightarrow> Inl e
      | Inr href \<Rightarrow>
     (case getitem result ''body'' of
        Inl e \<Rightarrow> Inl e
      | Inr body \<Rightarrow> Inr (''['' @ title @ '']('' @ href @ '')\<newline>'' @ body))))"

text \<open>Lines 87 to 91: the comprehension and the joined block under the heading.\<close>

definition ddg_format :: "result list \<Rightarrow> exn + string" where
  "ddg_format results =
     (case comprehension ddg_entry results of
        Inl e \<Rightarrow> Inl e
      | Inr postprocessed_results \<Rightarrow>
          Inr (heading @ join ''\<newline>\<newline>'' postprocessed_results))"

definition DuckDuckGoSearchTool_call :: "DuckDuckGoSearchTool \<Rightarrow> pyval \<Rightarrow> string outcome" where
  "DuckDuckGoSearchTool_call self query =
     (case ddgs_text self query (ddg_max_results self) of
        Inl e \<Rightarrow> (Inl e, [DDGS_text query (ddg_max_results self)])
      | Inr results \<Rightarrow>
          (if length results = 0 then Inl (Exception no_results_message)
           else ddg_format results,
           [DDGS_text query (ddg_max_results self)]))"

subsection \<open>TavilySearchTool\<close>

text \<open>
  \<^verbatim>\<open>client.search\<close> returns a dictionary; under the key \<^verbatim>\<open>results\<close> it holds the list
  of results, under other keys values that the tool never reads: strings (the echoed
  query) and numbers or \<^verbatim>\<open>None\<close> (the response time, the answer), the latter given by
  their text.
\<close>

datatype tavily_value = Results "result list" | Text string | Scalar string

record TavilySearchTool =
  tavily_max_results :: int
  client_search :: "pyval \<Rightarrow> exn + tavily_value dict"

text \<open>\<^verbatim>\<open>f"[{result['title']}]({result['content']}"\<close>\<close>

definition tavily_entry :: "result \<Rightarrow> exn + string" where
  "tavily_entry result =
     (case getitem result ''title'' of
        Inl e \<Rightarrow> Inl e
      | Inr title \<Rightarrow>
     (case getitem result ''content'' of
        Inl e \<Rightarrow> Inl e
      | Inr content \<Rightarrow> Inr (''['' @ title @ '']('' @ content)))"

text \<open>Lines 121 to 124.\<close>

definition tavily_format :: "result list \<Rightarrow> exn + string" where
  "tavily_format results =
     (case comprehension tavily_entry results of
        Inl e \<Rightarrow> Inl e
      | Inr postprocessed_results \<Rightarrow>
          Inr (heading @ join ''\<newline>\<newline>'' postprocessed_results))"

text \<open>
  The test \<^verbatim>\<open>len(results) == 0\<close> of line 118 is made on the response dictionary, before
  \<^verbatim>\<open>results["results"]\<close> is read. Should the entry \<^verbatim>\<open>results\<close> be a string, its slice is
  iterated character by character and the first \<^verbatim>\<open>result['title']\<close> raises
  \<^verbatim>\<open>TypeError\<close>; a number or \<^verbatim>\<open>None\<close> cannot be sliced at all (the message of that
  \<^verbatim>\<open>TypeError\<close> is given without the name of the value's type).
\<close>

definition TavilySearchTool_call :: "TavilySearchTool \<Rightarrow> pyval \<Rightarrow> string outcome" where
  "TavilySearchTool_call self query =
     (case client_search self query of
        Inl e \<Rightarrow> Inl e
      | Inr response \<Rightarrow>
          (if dict_len response = 0 then Inl (Exception no_results_message)
           else
             (case getitem response ''results'' of
                Inl e \<Rightarrow> Inl e
              | Inr (Text s) \<Rightarrow>
                  (if slice_to s (tavily_max_results self) = [] then tavily_format []
                   else Inl (TypeError (''string indices must be integers, not '' @ repr ''str'')))
              | Inr (Scalar v) \<Rightarrow> Inl (TypeError ''object is not subscriptable'')
              | Inr (Results results) \<Rightarrow>
                  tavily_format (slice_to results (tavily_max_results self)))),
      [Tavily_search query])"

subsection \<open>WebSearchTool\<close>

text \<open>
  The constructor always builds the DuckDuckGo adapter and sets the attribute
  \<^verbatim>\<open>tavily\<close> only when the key is a string: without a key the attribute does not exist.
\<close>

record WebSearchTool =
  ddg :: DuckDuckGoSearchTool
  tavily :: "TavilySearchTool option"

definition WebSearchTool_init ::
  "(pyval \<Rightarrow> int \<Rightarrow> exn + result list) \<Rightarrow> (string \<Rightarrow> pyval \<Rightarrow> exn + tavily_value dict) \<Rightarrow>
   int \<Rightarrow> string option \<Rightarrow> WebSearchTool" where
  "WebSearchTool_init DDGS TavilyClient max_results tavily_api_key =
     \<lparr>ddg = \<lparr>ddg_max_results = max_results, ddgs_text = DDGS\<rparr>,
      tavily =
        (case tavily_api_key of
           Some key \<Rightarrow>
             Some \<lparr>tavily_max_results = max_results, client_search = TavilyClient key\<rparr>
         | None \<Rightarrow> None)\<rparr>"

definition fallback_note :: "exn \<Rightarrow> string" where
  "fallback_note e = ''Error using DuckDuckGo search: '' @ str_exn e @ ''. Trying Tavily search...''"

definition no_tavily_attribute :: exn where
  "no_tavily_attribute =
     AttributeError (repr ''WebSearchTool'' @ '' object has no attribute '' @ repr ''tavily'')"

definition WebSearchTool_call :: "WebSearchTool \<Rightarrow> pyval \<Rightarrow> string outcome" where
  "WebSearchTool_call self query =
     (case DuckDuckGoSearchTool_call (ddg self) query of
        (Inr out, evs) \<Rightarrow> (Inr out, evs)
      | (Inl e, evs) \<Rightarrow>
          (if is_DuckDuckGoSearchException e then
             (case tavily self of
                None \<Rightarrow> (Inl no_tavily_attribute, evs @ [Print (fallback_note e)])
              | Some t \<Rightarrow>
                  (case TavilySearchTool_call t query of
                     (r, evs') \<Rightarrow> (r, evs @ [Print (fallback_note e)] @ evs')))
           else (Inl e, evs)))"

section \<open>VisitWebpageTool\<close>

text \<open>
  Strings are lists of characters, one \<open>char\<close> for each character of the Python string
  (the characters up to U+00FF). \<^verbatim>\<open>str.strip()\<close> removes the white space at both ends.
\<close>

definition is_space :: "char \<Rightarrow> bool" where
  "is_space c =
     (c \<in> set [CHR 0x09, CHR 0x0A, CHR 0x0B, CHR 0x0C, CHR 0x0D, CHR 0x1C, CHR 0x1D,
                CHR 0x1E, CHR 0x1F, CHR 0x20, CHR 0x85, CHR 0xA0])"

definition strip :: "string \<Rightarrow> string" where
  "strip s = rev (dropWhile is_space (rev (dropWhile is_space s)))"

definition is_nl :: "char \<Rightarrow> bool" where
  "is_nl c = (c = CHR ''\<newline>'')"

text \<open>
  \<^verbatim>\<open>re.sub(r"\n{3,}", "\n\n", s)\<close>: scanning from the left, where three or more line
  breaks start the whole run is matched (the quantifier is greedy) and replaced by two;
  elsewhere one character is copied.
\<close>

function re_sub_newlines :: "string \<Rightarrow> string" where
  "re_sub_newlines [] = []"
| "re_sub_newlines (c # cs) =
     (if 3 \<le> length (takeWhile is_nl (c # cs))
      then ''\<newline>\<newline>'' @ re_sub_newlines (dropWhile is_nl (c # cs))
      else c # re_sub_newlines cs)"
  by pat_completeness auto
termination
proof (relation "measure length")
  fix c :: char and cs :: string
  assume "3 \<le> length (takeWhile is_nl (c # cs))"
  then have "is_nl c"
    by (cases "is_nl c") auto
  then have "length (dropWhile is_nl (c # cs)) \<le> length cs"
    by (simp add: length_dropWhile_le)
  then show "(dropWhile is_nl (c # cs), c # cs) \<in> measure length"
    by simp
qed auto

text \<open>
  \<^verbatim>\<open>truncate_content\<close> is imported from \<^verbatim>\<open>smolagents.utils\<close>, a library that is not among
  the sources. The library defines it so:
  \<^verbatim>\<open>
  def truncate_content(content, max_length):
      if len(content) <= max_length:
          return content
      else:
          return (
              content[: max_length // 2]
              + f"\n..._This content has been truncated to stay below {max_length} characters_...\n"
              + content[-max_length // 2 :]
          )
  \<close>
  A text within the limit is returned as it is; of a longer one the first and the last
  characters are kept, around a notice. In \<^verbatim>\<open>-max_length // 2\<close> the sign is applied first and
  the division rounds down.
\<close>

definition truncation_notice :: "int \<Rightarrow> string" where
  "truncation_notice max_length =
     ''\<newline>..._This content has been truncated to stay below '' @ str_int max_length @
     '' characters_...\<newline>''"

definition truncate_content :: "string \<Rightarrow> int \<Rightarrow> string" where
  "truncate_content content max_length =
     (if int (length content) \<le> max_length then content
      else slice_to content (max_length div 2) @ truncation_notice max_length @
           slice_from content ((- max_length) div 2))"

text \<open>
  The outside of the tool: whether the imports of lines 33 to 38 succeed, the HTTP
  transport (\<^verbatim>\<open>requests.get(url, timeout=20)\<close> and \<^verbatim>\<open>response.raise_for_status()\<close>) and
  the converter \<^verbatim>\<open>markdownify\<close>. Each may raise.
\<close>

record http_response =
  status_code :: int
  response_text :: string

record web =
  import_packages :: "exn option"
  requests_get :: "pyval \<Rightarrow> int \<Rightarrow> exn + http_response"
  raise_for_status :: "http_response \<Rightarrow> exn option"
  markdownify :: "string \<Rightarrow> exn + string"

record VisitWebpageTool =
  max_output_length :: int

definition VisitWebpageTool_init :: "int \<Rightarrow> VisitWebpageTool" where
  "VisitWebpageTool_init n = \<lparr>max_output_length = n\<rparr>"

definition import_message :: string where
  "import_message =
     ''You must install packages `markdownify` and `requests` to run this tool: for instance run `pip install markdownify requests`.''"

definition timeout_message :: string where
  "timeout_message = ''The request timed out. Please try again later or check the URL.''"

text \<open>Lines 45 to 54, the body of the second \<^verbatim>\<open>try\<close>.\<close>

definition fetch :: "web \<Rightarrow> VisitWebpageTool \<Rightarrow> pyval \<Rightarrow> exn + string" where
  "fetch w self url =
     (case requests_get w url 20 of
        Inl e \<Rightarrow> Inl e
      | Inr response \<Rightarrow>
     (case raise_for_status w response of
        Some e \<Rightarrow> Inl e
      | None \<Rightarrow>
     (case markdownify w (response_text response) of
        Inl e \<Rightarrow> Inl e
      | Inr converted \<Rightarrow>
          Inr (truncate_content (re_sub_newlines (strip converted)) (max_output_length self)))))"

text \<open>Lines 56 to 61, the three \<^verbatim>\<open>except\<close> clauses in their order.\<close>

fun handle :: "exn \<Rightarrow> exn + string" where
  "handle (Timeout m) = Inr timeout_message"
| "handle (RequestException m) = Inr (''Error fetching the webpage: '' @ m)"
| "handle e =
     (if is_Exception e then Inr (''An unexpected error occurred: '' @ str_exn e) else Inl e)"

fun is_ImportError :: "exn \<Rightarrow> bool" where
  "is_ImportError (ImportError m) = True"
| "is_ImportError e = False"

definition VisitWebpageTool_call :: "web \<Rightarrow> VisitWebpageTool \<Rightarrow> pyval \<Rightarrow> exn + string" where
  "VisitWebpageTool_call w self url =
     (case import_packages w of
        Some e \<Rightarrow> (if is_ImportError e then Inl (ImportError import_message) else Inl e)
      | None \<Rightarrow>
          (case fetch w self url of
             Inr out \<Rightarrow> Inr out
           | Inl e \<Rightarrow> handle e))"

section \<open>Tool descriptors\<close>

text \<open>The class attributes that every tool carries.\<close>

record tool_descriptor =
  name :: string
  description :: string
  inputs :: "string dict dict"
  output_type :: string

definition DuckDuckGoSearchTool_descriptor :: tool_descriptor where
  "DuckDuckGoSearchTool_descriptor =
     \<lparr>name = ''web_search'',
      description = ''Performs a duckduckgo web search based on your query (think a Google search) then returns the top search results.'',
      inputs = [(''query'', [(''type'', ''string''), (''description'', ''The search query to perform.'')])],
      output_type = ''string''\<rparr>"

section \<open>Notions used in the properties\<close>

text \<open>Three line breaks in a row, somewhere in the string.\<close>

fun has_triple_newline :: "string \<Rightarrow> bool" where
  "has_triple_newline (a # b # c # cs) =
     ((is_nl a \<and> is_nl b \<and> is_nl c) \<or> has_triple_newline (b # c # cs))"
| "has_triple_newline cs = False"

text \<open>The number of line breaks a string starts with.\<close>

definition leading_newlines :: "string \<Rightarrow> nat" where
  "leading_newlines s = length (takeWhile is_nl s)"

text \<open>
  The collapsing of line breaks as the spec words it ("collapse any run of three or more
  consecutive line breaks into exactly two"), to be compared with \<open>re_sub_newlines\<close>:
  the text is cut into its maximal runs of one character, each with its length; a run of
  three or more line breaks is made a run of two; the runs are written out again.
\<close>

function runs :: "string \<Rightarrow> (char \<times> nat) list" where
  "runs [] = []"
| "runs (c # cs) =
     (c, Suc (length (takeWhile (\<lambda>x. x = c) cs))) # runs (dropWhile (\<lambda>x. x = c) cs)"
  by pat_completeness auto
termination
  by (relation "measure length") (auto simp: length_dropWhile_le less_Suc_eq_le)

fun collapse_run :: "char \<times> nat \<Rightarrow> char \<times> nat" where
  "collapse_run (c, n) = (if is_nl c \<and> 3 \<le> n then (c, 2) else (c, n))"

fun expand_run :: "char \<times> nat \<Rightarrow> string" where
  "expand_run (c, n) = replicate n c"

definition collapse_line_breaks_spec :: "string \<Rightarrow> string" where
  "collapse_line_breaks_spec s = concat (map expand_run (map collapse_run (runs s)))"

section \<open>Test doubles\<close>

text \<open>Backends with fixed answers, for the concrete instances below.\<close>

definition paris :: result where
  "paris = [(''title'', ''Paris''), (''href'', ''https://x''), (''body'', ''Paris is the capital'')]"

definition both_shapes :: result where
  "both_shapes =
     [(''title'', ''Paris''), (''href'', ''https://x''), (''body'', ''Paris is the capital''),
      (''url'', ''https://x''), (''content'', ''Paris is the capital'')]"

definition ddgs_paris :: "pyval \<Rightarrow> int \<Rightarrow> exn + result list" where
  "ddgs_paris q n = Inr [paris]"

definition ddgs_empty :: "pyval \<Rightarrow> int \<Rightarrow> exn + result list" where
  "ddgs_empty q n = Inr []"

definition ddgs_ratelimit :: "pyval \<Rightarrow> int \<Rightarrow> exn + result list" where
  "ddgs_ratelimit q n = Inl (DuckDuckGoSearchException ''202 Ratelimit'')"

definition tavily_no_match :: "string \<Rightarrow> pyval \<Rightarrow> exn + tavily_value dict" where
  "tavily_no_match key q = Inr [(''query'', Text ''zzz''), (''results'', Results [])]"

definition status_check :: "http_response \<Rightarrow> exn option" where
  "status_check r =
     (if 400 \<le> status_code r \<and> status_code r < 600
      then Some (RequestException ''404 Client Error: Not Found for url: https://x/missing'')
      else None)"

definition web_ok :: web where
  "web_ok =
     \<lparr>import_packages = None,
      requests_get =
        (\<lambda>url t. Inr \<lparr>status_code = 200, response_text = ''<h1>Title</h1><p>Body</p>''\<rparr>),
      raise_for_status = status_check,
      markdownify = (\<lambda>page. Inr ''  Title\<newline>\<newline>\<newline>\<newline>\<newline>Body text \<newline>'')\<rparr>"

definition web_not_found :: web where
  "web_not_found =
     web_ok\<lparr>requests_get := (\<lambda>url t. Inr \<lparr>status_code = 404, response_text = ''Not Found''\<rparr>)\<rparr>"

definition web_timeout :: web where
  "web_timeout = web_ok\<lparr>requests_get := (\<lambda>url t. Inl (Timeout ''Read timed out.''))\<rparr>"

definition web_missing_packages :: web where
  "web_missing_packages =
     web_ok\<lparr>import_packages := Some (ImportError ''No module named markdownify'')\<rparr>"

section \<open>Lemmas on the search adapters\<close>

text \<open>The DuckDuckGo adapter raises on an empty list of results.\<close>

lemma ddg_zero_results:
  assumes "ddgs_text self query (ddg_max_results self) = Inr []"
  shows "DuckDuckGoSearchTool_call self query =
      (Inl (Exception no_results_message), [DDGS_text query (ddg_max_results self)])"
  using assms by (simp add: DuckDuckGoSearchTool_call_def)

text \<open>What the DuckDuckGo adapter raises: the backend's fault, the zero-results error or
  the fault of the formatting.\<close>

lemma ddg_raises:
  "fst (DuckDuckGoSearchTool_call self query) = Inl e \<longleftrightarrow>
     ddgs_text self query (ddg_max_results self) = Inl e \<or>
     (\<exists>results. ddgs_text self query (ddg_max_results self) = Inr results \<and>
        (if results = [] then e = Exception no_results_message else ddg_format results = Inl e))"
  by (auto simp: DuckDuckGoSearchTool_call_def split: sum.splits)

text \<open>It succeeds only on a list of at least one result.\<close>

lemma ddg_success_nonempty:
  assumes "DuckDuckGoSearchTool_call self query = (Inr out, evs)"
  shows "\<exists>results. ddgs_text self query (ddg_max_results self) = Inr results \<and>
      results \<noteq> [] \<and> ddg_format results = Inr out"
  using assms by (auto simp: DuckDuckGoSearchTool_call_def split: sum.splits if_splits)

lemma getitem_dict_len:
  assumes "getitem d k = Inr v"
  shows "dict_len d \<noteq> 0"
proof -
  from assms have "d \<noteq> []"
    by (auto simp: getitem_def)
  then show ?thesis
    by (cases d) (auto simp: dict_len_def)
qed

text \<open>The Tavily adapter returns the bare heading whenever the response holds an empty
  list of results.\<close>

lemma tavily_zero_results:
  assumes "client_search self query = Inr response"
    and "getitem response ''results'' = Inr (Results [])"
  shows "TavilySearchTool_call self query = (Inr heading, [Tavily_search query])"
  using assms getitem_dict_len [OF assms(2)]
  by (simp add: TavilySearchTool_call_def slice_to_def tavily_format_def)

text \<open>The results of the adapters, without their traces.\<close>

lemma fst_DuckDuckGoSearchTool_call:
  "fst (DuckDuckGoSearchTool_call self query) =
     (case ddgs_text self query (ddg_max_results self) of
        Inl e \<Rightarrow> Inl e
      | Inr results \<Rightarrow>
          if length results = 0 then Inl (Exception no_results_message) else ddg_format results)"
  by (simp add: DuckDuckGoSearchTool_call_def split: sum.splits)

lemma fst_WebSearchTool_call:
  "fst (WebSearchTool_call self query) =
     (case fst (DuckDuckGoSearchTool_call (ddg self) query) of
        Inr out \<Rightarrow> Inr out
      | Inl e \<Rightarrow>
          if is_DuckDuckGoSearchException e then
            (case tavily self of
               None \<Rightarrow> Inl no_tavily_attribute
             | Some t \<Rightarrow> fst (TavilySearchTool_call t query))
          else Inl e)"
  by (simp add: WebSearchTool_call_def split: prod.splits sum.splits option.splits)

lemma tavily_same_answer:
  assumes "client_search t q = client_search t q'"
  shows "fst (TavilySearchTool_call t q) = fst (TavilySearchTool_call t q')"
  using assms by (simp add: TavilySearchTool_call_def)

section \<open>Lemmas on the collapsing of line breaks\<close>

declare re_sub_newlines.simps(2) [simp del]

lemma leading_newlines_simps [simp]:
  "leading_newlines [] = 0"
  "leading_newlines (c # cs) = (if is_nl c then Suc (leading_newlines cs) else 0)"
  by (simp_all add: leading_newlines_def)

lemma leading_newlines_dropWhile [simp]: "leading_newlines (dropWhile is_nl s) = 0"
  by (induction s) auto

lemma has_triple_newline_Cons:
  "has_triple_newline (c # cs) \<longleftrightarrow> 3 \<le> leading_newlines (c # cs) \<or> has_triple_newline cs"
proof (cases cs)
  case Nil
  then show ?thesis by simp
next
  case (Cons b bs)
  then show ?thesis by (cases bs) auto
qed

lemma re_sub_newlines_Cons:
  "re_sub_newlines (c # cs) =
     (if 3 \<le> leading_newlines (c # cs)
      then CHR ''\<newline>'' # CHR ''\<newline>'' # re_sub_newlines (dropWhile is_nl (c # cs))
      else c # re_sub_newlines cs)"
  by (simp add: leading_newlines_def re_sub_newlines.simps(2))

text \<open>A character other than a line break is copied.\<close>

lemma re_sub_newlines_other:
  "\<not> is_nl c \<Longrightarrow> re_sub_newlines (c # cs) = c # re_sub_newlines cs"
  by (simp add: re_sub_newlines.simps(2))

text \<open>The result starts with as many line breaks as the input, but at most two.\<close>

lemma leading_newlines_re_sub_newlines:
  "leading_newlines (re_sub_newlines s) = min 2 (leading_newlines s)"
proof (induction s rule: re_sub_newlines.induct)
  case 1
  then show ?case by simp
next
  case (2 c cs)
  show ?case
  proof (cases "3 \<le> leading_newlines (c # cs)")
    case True
    then have t: "3 \<le> length (takeWhile is_nl (c # cs))"
      unfolding leading_newlines_def .
    have "leading_newlines (re_sub_newlines (dropWhile is_nl (c # cs))) =
        min 2 (leading_newlines (dropWhile is_nl (c # cs)))"
      by (rule 2(1) [OF t])
    then have "leading_newlines (re_sub_newlines (dropWhile is_nl (c # cs))) = 0"
      by (simp del: dropWhile.simps)
    with True show ?thesis
      by (subst re_sub_newlines_Cons) (simp add: is_nl_def)
  next
    case False
    then have t: "\<not> 3 \<le> length (takeWhile is_nl (c # cs))"
      unfolding leading_newlines_def .
    have "leading_newlines (re_sub_newlines cs) = min 2 (leading_newlines cs)"
      by (rule 2(2) [OF t])
    with False show ?thesis
      by (subst re_sub_newlines_Cons) (auto split: if_splits)
  qed
qed

text \<open>A whole run of line breaks, followed by another character or by the end, becomes
  a run of at most two.\<close>

lemma re_sub_newlines_run:
  assumes "leading_newlines s = 0"
  shows "re_sub_newlines (replicate n (CHR ''\<newline>'') @ s) =
     replicate (min 2 n) (CHR ''\<newline>'') @ re_sub_newlines s"
proof -
  have dw: "dropWhile is_nl (replicate k (CHR ''\<newline>'') @ s) = s" for k
    using assms
    by (induction k)
      (auto simp: leading_newlines_def is_nl_def dropWhile_eq_self_iff takeWhile_eq_Nil_iff)
  have tw: "takeWhile is_nl (replicate k (CHR ''\<newline>'') @ s) = replicate k (CHR ''\<newline>'')" for k
    using assms by (induction k) (auto simp: leading_newlines_def is_nl_def)
  have l: "leading_newlines (replicate k (CHR ''\<newline>'') @ s) = k" for k
    by (simp add: leading_newlines_def tw)
  have one: "re_sub_newlines (CHR ''\<newline>'' # s) = CHR ''\<newline>'' # re_sub_newlines s"
    using l [of 1] by (subst re_sub_newlines_Cons) simp
  consider "n = 0" | "n = 1" | "n = 2" | "3 \<le> n" by linarith
  then show ?thesis
  proof cases
    case 1
    then show ?thesis by simp
  next
    case 2
    with one show ?thesis by simp
  next
    case 3
    have "re_sub_newlines (CHR ''\<newline>'' # CHR ''\<newline>'' # s) =
        CHR ''\<newline>'' # re_sub_newlines (CHR ''\<newline>'' # s)"
      using l [of 2] by (subst re_sub_newlines_Cons) (simp add: numeral_2_eq_2)
    with one 3 show ?thesis by (simp add: numeral_2_eq_2)
  next
    case 4
    then obtain k where n: "n = Suc k" by (cases n) auto
    have "re_sub_newlines (CHR ''\<newline>'' # replicate k (CHR ''\<newline>'') @ s) =
        CHR ''\<newline>'' # CHR ''\<newline>'' #
        re_sub_newlines (dropWhile is_nl (CHR ''\<newline>'' # replicate k (CHR ''\<newline>'') @ s))"
      using l [of n] 4 n by (subst re_sub_newlines_Cons) simp
    moreover have "dropWhile is_nl (CHR ''\<newline>'' # replicate k (CHR ''\<newline>'') @ s) = s"
      using dw [of n] n by simp
    ultimately show ?thesis
      using 4 n by (simp add: numeral_2_eq_2)
  qed
qed

text \<open>No three line breaks in a row are left.\<close>

lemma no_triple_re_sub_newlines: "\<not> has_triple_newline (re_sub_newlines s)"
proof (induction s rule: re_sub_newlines.induct)
  case 1
  then show ?case by simp
next
  case (2 c cs)
  show ?case
  proof (cases "3 \<le> leading_newlines (c # cs)")
    case True
    let ?r = "re_sub_newlines (dropWhile is_nl (c # cs))"
    from True have t: "3 \<le> length (takeWhile is_nl (c # cs))"
      unfolding leading_newlines_def .
    have ih: "\<not> has_triple_newline ?r"
      by (rule 2(1) [OF t])
    have "leading_newlines ?r = 0"
      by (simp only: leading_newlines_re_sub_newlines leading_newlines_dropWhile)
    with ih have "\<not> has_triple_newline (CHR ''\<newline>'' # CHR ''\<newline>'' # ?r)"
      by (simp add: has_triple_newline_Cons is_nl_def)
    with True show ?thesis
      by (subst re_sub_newlines_Cons) simp
  next
    case False
    then have t: "\<not> 3 \<le> length (takeWhile is_nl (c # cs))"
      unfolding leading_newlines_def .
    have ih: "\<not> has_triple_newline (re_sub_newlines cs)"
      by (rule 2(2) [OF t])
    from False have "leading_newlines (c # re_sub_newlines cs) < 3"
      by (auto simp: leading_newlines_re_sub_newlines split: if_splits)
    with ih have "\<not> has_triple_newline (c # re_sub_newlines cs)"
      by (simp add: has_triple_newline_Cons)
    with False show ?thesis
      by (subst re_sub_newlines_Cons) simp
  qed
qed

text \<open>\<open>has_triple_newline\<close> decides whether the string contains three line breaks in a
  row.\<close>

lemma has_triple_newline_iff:
  "has_triple_newline s \<longleftrightarrow> (\<exists>xs ys. s = xs @ ''\<newline>\<newline>\<newline>'' @ ys)"
proof
  show "has_triple_newline s \<Longrightarrow> \<exists>xs ys. s = xs @ ''\<newline>\<newline>\<newline>'' @ ys"
  proof (induction s rule: has_triple_newline.induct)
    case (1 a b c cs)
    show ?case
    proof (cases "is_nl a \<and> is_nl b \<and> is_nl c")
      case True
      then have "a # b # c # cs = [] @ ''\<newline>\<newline>\<newline>'' @ cs"
        by (simp add: is_nl_def)
      then show ?thesis by blast
    next
      case False
      with 1 obtain xs ys where "b # c # cs = xs @ ''\<newline>\<newline>\<newline>'' @ ys"
        by auto
      then have "a # b # c # cs = (a # xs) @ ''\<newline>\<newline>\<newline>'' @ ys"
        by simp
      then show ?thesis by blast
    qed
  qed simp_all
next
  assume "\<exists>xs ys. s = xs @ ''\<newline>\<newline>\<newline>'' @ ys"
  then obtain xs ys where s: "s = xs @ ''\<newline>\<newline>\<newline>'' @ ys"
    by blast
  have "has_triple_newline (xs @ ''\<newline>\<newline>\<newline>'' @ ys)"
  proof (induction xs)
    case Nil
    then show ?case by (simp add: is_nl_def)
  next
    case (Cons x xs)
    then show ?case
      by (simp only: append_Cons has_triple_newline_Cons) simp
  qed
  with s show "has_triple_newline s" by simp
qed

text \<open>Cutting a string at some length creates no such run.\<close>

lemma has_triple_newline_take:
  assumes "has_triple_newline (take n s)"
  shows "has_triple_newline s"
proof -
  from assms obtain xs ys where "take n s = xs @ ''\<newline>\<newline>\<newline>'' @ ys"
    by (auto simp: has_triple_newline_iff)
  then have "take n s @ drop n s = xs @ ''\<newline>\<newline>\<newline>'' @ (ys @ drop n s)"
    by simp
  then have "s = xs @ ''\<newline>\<newline>\<newline>'' @ (ys @ drop n s)"
    by (simp only: append_take_drop_id)
  then show ?thesis
    unfolding has_triple_newline_iff by blast
qed

declare runs.simps(2) [simp del]

text \<open>Cutting a text into its runs and writing them out again gives the text back.\<close>

lemma expand_runs: "concat (map expand_run (runs s)) = s"
proof (induction s rule: runs.induct)
  case 1
  then show ?case by simp
next
  case (2 c cs)
  have "replicate (length (takeWhile (\<lambda>x. x = c) cs)) c = takeWhile (\<lambda>x. x = c) cs"
    by (induction cs) auto
  with 2 show ?case
    by (simp add: runs.simps(2))
qed

lemma runs_same:
  "runs (c # c # cs) =
     (c, Suc (Suc (length (takeWhile (\<lambda>x. x = c) cs)))) # runs (dropWhile (\<lambda>x. x = c) cs)"
  by (simp add: runs.simps(2))

lemma spec_Cons:
  assumes "\<not> (is_nl c \<and> 3 \<le> Suc (length (takeWhile (\<lambda>x. x = c) cs)))"
  shows "collapse_line_breaks_spec (c # cs) = c # collapse_line_breaks_spec cs"
proof (cases "takeWhile (\<lambda>x. x = c) cs")
  case Nil
  then have "dropWhile (\<lambda>x. x = c) cs = cs"
    by (metis append_Nil takeWhile_dropWhile_id)
  with Nil assms show ?thesis
    by (simp add: collapse_line_breaks_spec_def runs.simps(2))
next
  case (Cons d ds)
  then obtain cs' where cs: "cs = c # cs'"
    by (cases cs) (auto split: if_splits)
  with assms show ?thesis
    by (auto simp: collapse_line_breaks_spec_def runs.simps(2))
qed

lemma takeWhile_is_nl: "is_nl c \<Longrightarrow> takeWhile is_nl cs = takeWhile (\<lambda>x. x = c) cs"
  by (rule takeWhile_cong) (auto simp: is_nl_def)

lemma dropWhile_is_nl: "is_nl c \<Longrightarrow> dropWhile is_nl cs = dropWhile (\<lambda>x. x = c) cs"
  by (rule dropWhile_cong) (auto simp: is_nl_def)

text \<open>The substitution of the code does what the spec says of the collapsing.\<close>

lemma re_sub_newlines_spec: "re_sub_newlines s = collapse_line_breaks_spec s"
proof (induction s rule: re_sub_newlines.induct)
  case 1
  then show ?case by (simp add: collapse_line_breaks_spec_def)
next
  case (2 c cs)
  show ?case
  proof (cases "3 \<le> leading_newlines (c # cs)")
    case True
    then have t: "3 \<le> length (takeWhile is_nl (c # cs))"
      unfolding leading_newlines_def .
    from True have nl: "is_nl c"
      by (cases "is_nl c") auto
    have ih: "re_sub_newlines (dropWhile is_nl (c # cs)) =
        collapse_line_breaks_spec (dropWhile is_nl (c # cs))"
      by (rule 2(1) [OF t])
    from nl have d: "dropWhile is_nl (c # cs) = dropWhile (\<lambda>x. x = c) cs"
      by (simp add: dropWhile_is_nl)
    from nl True have n: "3 \<le> Suc (length (takeWhile (\<lambda>x. x = c) cs))"
      by (simp add: leading_newlines_def takeWhile_is_nl)
    have "collapse_line_breaks_spec (c # cs) =
        c # c # collapse_line_breaks_spec (dropWhile (\<lambda>x. x = c) cs)"
      using nl n by (simp add: collapse_line_breaks_spec_def runs.simps(2) numeral_2_eq_2)
    moreover have "re_sub_newlines (c # cs) = c # c # re_sub_newlines (dropWhile is_nl (c # cs))"
      using True nl by (subst re_sub_newlines_Cons) (simp add: is_nl_def)
    ultimately show ?thesis
      using ih d by simp
  next
    case False
    then have t: "\<not> 3 \<le> length (takeWhile is_nl (c # cs))"
      unfolding leading_newlines_def .
    have ih: "re_sub_newlines cs = collapse_line_breaks_spec cs"
      by (rule 2(2) [OF t])
    from False have "\<not> (is_nl c \<and> 3 \<le> Suc (length (takeWhile (\<lambda>x. x = c) cs)))"
      by (auto simp: leading_newlines_def takeWhile_is_nl)
    then have "collapse_line_breaks_spec (c # cs) = c # collapse_line_breaks_spec cs"
      by (rule spec_Cons)
    moreover from False have "re_sub_newlines (c # cs) = c # re_sub_newlines cs"
      by (subst re_sub_newlines_Cons) simp
    ultimately show ?thesis
      using ih by simp
  qed
qed

section \<open>Lemmas on the truncation\<close>

declare str_nat.simps [simp del]

lemma str_int_14: "str_int 14 = ''14''"
  by code_simp

text \<open>A text within the limit is returned unchanged; the result for a longer text is
  longer than the limit.\<close>

lemma truncate_content_short:
  "int (length content) \<le> n \<Longrightarrow> truncate_content content n = content"
  by (simp add: truncate_content_def)

lemma truncate_content_long:
  assumes "n < int (length content)"
  shows "n < int (length (truncate_content content n))"
proof (cases "0 \<le> n")
  case False
  then show ?thesis by simp
next
  case True
  have notice: "1 \<le> int (length (truncation_notice n))"
    by (simp add: truncation_notice_def)
  have head: "int (length (slice_to content (n div 2))) = n div 2"
    using True assms by (simp add: slice_to_def)
  have tail: "- ((- n) div 2) \<le> int (length (slice_from content ((- n) div 2)))"
    using True assms by (auto simp: slice_from_def)
  have half: "n div 2 - (- n) div 2 = n"
    by presburger
  have "int (length (truncate_content content n)) =
      int (length (slice_to content (n div 2))) + int (length (truncation_notice n)) +
      int (length (slice_from content ((- n) div 2)))"
    using assms by (simp add: truncate_content_def)
  with head tail notice half show ?thesis
    by linarith
qed

section \<open>Lemmas on the webpage tool\<close>

text \<open>Where a fault of the fetch comes from: the GET, the status check or the converter.\<close>

lemma fetch_raises:
  "fetch w self url = Inl e \<longleftrightarrow>
     requests_get w url 20 = Inl e \<or>
     (\<exists>response. requests_get w url 20 = Inr response \<and>
        (raise_for_status w response = Some e \<or>
         raise_for_status w response = None \<and> markdownify w (response_text response) = Inl e))"
  by (auto simp: fetch_def split: sum.splits option.splits)

lemma web_ok_collapsed:
  "re_sub_newlines (strip ''  Title\<newline>\<newline>\<newline>\<newline>\<newline>Body text \<newline>'') =
     ''Title\<newline>\<newline>Body text''"
  by (simp add: strip_def is_space_def is_nl_def re_sub_newlines.simps(2))

lemma web_ok_output:
  "truncate_content
     (re_sub_newlines (strip ''  Title\<newline>\<newline>\<newline>\<newline>\<newline>Body text \<newline>'')) 40000 =
   ''Title\<newline>\<newline>Body text''"
  by (simp add: web_ok_collapsed truncate_content_def)

lemma web_ok_truncated:
  "truncate_content ''Title\<newline>\<newline>Body text'' 14 =
     ''Title\<newline>\<newline>\<newline>..._This content has been truncated to stay below 14 characters_...\<newline>dy text''"
  by (simp add: truncate_content_def truncation_notice_def slice_to_def slice_from_def str_int_14)

section \<open>Properties\<close>

subsection \<open>The composite search tool\<close>

text \<open>
  C1. For every query on which the DuckDuckGo adapter succeeds, that is, its backend
  returns at least one result and the results are formatted, the call of the composite
  search tool returns exactly the adapter's formatted output, and the trace of the call
  holds the one request to DuckDuckGo and no request to Tavily.
\<close>

theorem web_search_primary_success:
  assumes "ddgs_text (ddg self) query (ddg_max_results (ddg self)) = Inr results"
    and "results \<noteq> []"
    and "ddg_format results = Inr out"
  shows "WebSearchTool_call self query = (Inr out, [DDGS_text query (ddg_max_results (ddg self))])
     \<and> WebSearchTool_call self query = DuckDuckGoSearchTool_call (ddg self) query
     \<and> \<not> list_ex is_Tavily_search (snd (WebSearchTool_call self query))"
  using assms by (simp add: WebSearchTool_call_def DuckDuckGoSearchTool_call_def)

theorem web_search_primary_success_witness:
  "ddgs_text (ddg (WebSearchTool_init ddgs_paris tavily_no_match 10 (Some ''key'')))
       (PyStr ''capital of France'') 10 = Inr [paris]
   \<and> [paris] \<noteq> []
   \<and> ddg_format [paris] =
       Inr ''## Search Results\<newline>\<newline>[Paris](https://x)\<newline>Paris is the capital''
   \<and> WebSearchTool_call (WebSearchTool_init ddgs_paris tavily_no_match 10 (Some ''key''))
       (PyStr ''capital of France'') =
      (Inr ''## Search Results\<newline>\<newline>[Paris](https://x)\<newline>Paris is the capital'',
       [DDGS_text (PyStr ''capital of France'') 10])"
proof -
  let ?self = "WebSearchTool_init ddgs_paris tavily_no_match 10 (Some ''key'')"
  have m: "ddg_max_results (ddg ?self) = 10"
    by (simp add: WebSearchTool_init_def)
  have h1: "ddgs_text (ddg ?self) (PyStr ''capital of France'') (ddg_max_results (ddg ?self)) =
      Inr [paris]"
    by (simp add: WebSearchTool_init_def ddgs_paris_def)
  have h2: "[paris] \<noteq> []"
    by simp
  have h3: "ddg_format [paris] =
      Inr ''## Search Results\<newline>\<newline>[Paris](https://x)\<newline>Paris is the capital''"
    by (simp add: ddg_format_def ddg_entry_def getitem_def paris_def heading_def)
  show ?thesis
    using web_search_primary_success [OF h1 h2 h3] h1 h2 h3 m by simp
qed

text \<open>
  C4. When the DuckDuckGo adapter raises anything that is not a
  \<^verbatim>\<open>DuckDuckGoSearchException\<close>, the zero-results error included, the composite search
  tool raises the same exception after the same trace, in which Tavily does not occur.
  And whenever Tavily occurs in the trace of a call, the DuckDuckGo adapter had raised a
  \<^verbatim>\<open>DuckDuckGoSearchException\<close>: nothing else triggers the fallback.
\<close>

theorem web_search_fallback_only_on_outage:
  "(DuckDuckGoSearchTool_call (ddg self) query = (Inl e, evs) \<and>
      \<not> is_DuckDuckGoSearchException e \<longrightarrow>
      WebSearchTool_call self query = (Inl e, evs) \<and> \<not> list_ex is_Tavily_search evs)
   \<and> (list_ex is_Tavily_search (snd (WebSearchTool_call self query)) \<longrightarrow>
        (\<exists>m. fst (DuckDuckGoSearchTool_call (ddg self) query) =
           Inl (DuckDuckGoSearchException m)))"
  by (auto simp: WebSearchTool_call_def DuckDuckGoSearchTool_call_def
      split: sum.splits if_splits option.splits prod.splits
      elim: is_DuckDuckGoSearchException.elims)

theorem web_search_fallback_only_on_outage_witness:
  "DuckDuckGoSearchTool_call
       (ddg (WebSearchTool_init ddgs_empty tavily_no_match 10 (Some ''key''))) (PyStr ''zzz'') =
     (Inl (Exception no_results_message), [DDGS_text (PyStr ''zzz'') 10])
   \<and> \<not> is_DuckDuckGoSearchException (Exception no_results_message)
   \<and> WebSearchTool_call (WebSearchTool_init ddgs_empty tavily_no_match 10 (Some ''key''))
       (PyStr ''zzz'') =
     (Inl (Exception no_results_message), [DDGS_text (PyStr ''zzz'') 10])
   \<and> list_ex is_Tavily_search
       (snd (WebSearchTool_call (WebSearchTool_init ddgs_ratelimit tavily_no_match 10 (Some ''key''))
          (PyStr ''zzz'')))
   \<and> fst (DuckDuckGoSearchTool_call
       (ddg (WebSearchTool_init ddgs_ratelimit tavily_no_match 10 (Some ''key''))) (PyStr ''zzz'')) =
     Inl (DuckDuckGoSearchException ''202 Ratelimit'')"
proof -
  let ?empty = "WebSearchTool_init ddgs_empty tavily_no_match 10 (Some ''key'')"
  let ?limited = "WebSearchTool_init ddgs_ratelimit tavily_no_match 10 (Some ''key'')"
  have h1: "DuckDuckGoSearchTool_call (ddg ?empty) (PyStr ''zzz'') =
      (Inl (Exception no_results_message), [DDGS_text (PyStr ''zzz'') 10])"
    by (simp add: WebSearchTool_init_def DuckDuckGoSearchTool_call_def ddgs_empty_def)
  have h2: "\<not> is_DuckDuckGoSearchException (Exception no_results_message)"
    by simp
  have h3: "list_ex is_Tavily_search (snd (WebSearchTool_call ?limited (PyStr ''zzz'')))"
    by (simp add: WebSearchTool_init_def WebSearchTool_call_def DuckDuckGoSearchTool_call_def
        TavilySearchTool_call_def ddgs_ratelimit_def)
  have h4: "fst (DuckDuckGoSearchTool_call (ddg ?limited) (PyStr ''zzz'')) =
      Inl (DuckDuckGoSearchException ''202 Ratelimit'')"
    by (simp add: WebSearchTool_init_def DuckDuckGoSearchTool_call_def ddgs_ratelimit_def)
  show ?thesis
    using web_search_fallback_only_on_outage
        [of ?empty "PyStr ''zzz''" "Exception no_results_message" "[DDGS_text (PyStr ''zzz'') 10]"]
      web_search_fallback_only_on_outage [of ?limited "PyStr ''zzz''"]
      h1 h2 h3 h4
    by simp
qed

text \<open>
  C5. When the DuckDuckGo backend raises a \<^verbatim>\<open>DuckDuckGoSearchException\<close> and the composite
  search tool was constructed without a Tavily key, the call fails: after the request to
  DuckDuckGo and the printed note it raises the \<^verbatim>\<open>AttributeError\<close> of the attribute
  \<^verbatim>\<open>tavily\<close> that was never set. It returns no value.
\<close>

theorem web_search_outage_without_fallback:
  assumes "DDGS query max_results = Inl e"
    and "is_DuckDuckGoSearchException e"
  shows "WebSearchTool_call (WebSearchTool_init DDGS TavilyClient max_results None) query =
     (Inl no_tavily_attribute, [DDGS_text query max_results, Print (fallback_note e)])"
  using assms
  by (simp add: WebSearchTool_call_def WebSearchTool_init_def DuckDuckGoSearchTool_call_def)

theorem web_search_outage_without_fallback_witness:
  "ddgs_ratelimit (PyStr ''capital of France'') 10 =
     Inl (DuckDuckGoSearchException ''202 Ratelimit'')
   \<and> is_DuckDuckGoSearchException (DuckDuckGoSearchException ''202 Ratelimit'')
   \<and> WebSearchTool_call (WebSearchTool_init ddgs_ratelimit tavily_no_match 10 None)
        (PyStr ''capital of France'') =
      (Inl no_tavily_attribute,
       [DDGS_text (PyStr ''capital of France'') 10,
        Print ''Error using DuckDuckGo search: 202 Ratelimit. Trying Tavily search...''])"
proof -
  have h1: "ddgs_ratelimit (PyStr ''capital of France'') 10 =
      Inl (DuckDuckGoSearchException ''202 Ratelimit'')"
    by (simp add: ddgs_ratelimit_def)
  have h2: "is_DuckDuckGoSearchException (DuckDuckGoSearchException ''202 Ratelimit'')"
    by simp
  show ?thesis
    using web_search_outage_without_fallback
      [where DDGS = ddgs_ratelimit and query = "PyStr ''capital of France''" and max_results = 10
         and e = "DuckDuckGoSearchException ''202 Ratelimit''" and TavilyClient = tavily_no_match,
       OF h1 h2] h1 h2
    by (simp add: fallback_note_def)
qed

subsection \<open>The two adapters\<close>

text \<open>
  C2. On one and the same list of results, holding the keys of both backends, the
  DuckDuckGo formatting gives the titled link followed by the snippet, while the Tavily
  formatting gives the title followed by an opening parenthesis and the content, with
  no link, no closing parenthesis and no line break: the two outputs differ.
\<close>

theorem formats_differ:
  "ddg_format [both_shapes] =
     Inr ''## Search Results\<newline>\<newline>[Paris](https://x)\<newline>Paris is the capital''
   \<and> tavily_format [both_shapes] =
     Inr ''## Search Results\<newline>\<newline>[Paris](Paris is the capital''
   \<and> ddg_format [both_shapes] \<noteq> tavily_format [both_shapes]"
  by (simp add: ddg_format_def tavily_format_def ddg_entry_def tavily_entry_def getitem_def
      both_shapes_def heading_def)

text \<open>
  C3. A Tavily response that holds an empty list of results is not raised as an error:
  the adapter returns the bare heading as a success. (The DuckDuckGo adapter does raise,
  see \<open>ddg_zero_results\<close>.)
\<close>

theorem tavily_empty_results_succeed:
  "TavilySearchTool_call \<lparr>tavily_max_results = 10, client_search = tavily_no_match ''key''\<rparr>
     (PyStr ''zzz'') =
   (Inr ''## Search Results\<newline>\<newline>'', [Tavily_search (PyStr ''zzz'')])"
  by (simp add: TavilySearchTool_call_def tavily_no_match_def dict_len_def getitem_def
      slice_to_def tavily_format_def heading_def)

subsection \<open>The webpage tool\<close>

text \<open>
  C6, as the code has it. When the imports succeed, a successful fetch returns its text,
  and every fault of the fetch that is an instance of \<^verbatim>\<open>Exception\<close> (from the GET, the
  status check or the conversion) is turned into a descriptive string: the fixed message
  for a timeout, the fault's text after "Error fetching the webpage: " for another
  request fault, and after "An unexpected error occurred: " for anything else. When an
  import fails with \<^verbatim>\<open>ImportError\<close>, the call raises \<^verbatim>\<open>ImportError\<close>.
\<close>

theorem visit_webpage_outcomes:
  "(import_packages w = None \<and> fetch w self url = Inr out \<longrightarrow>
      VisitWebpageTool_call w self url = Inr out)
   \<and> (import_packages w = None \<and> fetch w self url = Inl e \<and> is_Exception e \<longrightarrow>
        VisitWebpageTool_call w self url =
          Inr (case e of
                 Timeout m \<Rightarrow> ''The request timed out. Please try again later or check the URL.''
               | RequestException m \<Rightarrow> ''Error fetching the webpage: '' @ m
               | _ \<Rightarrow> ''An unexpected error occurred: '' @ str_exn e))
   \<and> (import_packages w = Some e' \<and> is_ImportError e' \<longrightarrow>
        VisitWebpageTool_call w self url = Inl (ImportError import_message))"
  by (cases e) (simp_all add: VisitWebpageTool_call_def timeout_message_def)

theorem visit_webpage_outcomes_witness:
  "import_packages web_ok = None
   \<and> fetch web_ok (VisitWebpageTool_init 40000) (PyStr ''https://x'') =
       Inr ''Title\<newline>\<newline>Body text''
   \<and> VisitWebpageTool_call web_ok (VisitWebpageTool_init 40000) (PyStr ''https://x'') =
       Inr ''Title\<newline>\<newline>Body text''
   \<and> import_packages web_not_found = None
   \<and> fetch web_not_found (VisitWebpageTool_init 40000) (PyStr ''https://x/missing'') =
       Inl (RequestException ''404 Client Error: Not Found for url: https://x/missing'')
   \<and> is_Exception (RequestException ''404 Client Error: Not Found for url: https://x/missing'')
   \<and> VisitWebpageTool_call web_not_found (VisitWebpageTool_init 40000) (PyStr ''https://x/missing'') =
       Inr ''Error fetching the webpage: 404 Client Error: Not Found for url: https://x/missing''
   \<and> import_packages web_missing_packages = Some (ImportError ''No module named markdownify'')
   \<and> is_ImportError (ImportError ''No module named markdownify'')
   \<and> VisitWebpageTool_call web_missing_packages (VisitWebpageTool_init 40000) (PyStr ''https://x'') =
       Inl (ImportError import_message)"
proof -
  let ?tool = "VisitWebpageTool_init 40000"
  have a1: "import_packages web_ok = None"
    by (simp add: web_ok_def)
  have a2: "fetch web_ok ?tool (PyStr ''https://x'') = Inr ''Title\<newline>\<newline>Body text''"
    using web_ok_output
    by (simp add: fetch_def web_ok_def status_check_def VisitWebpageTool_init_def)
  have b1: "import_packages web_not_found = None"
    by (simp add: web_not_found_def web_ok_def)
  have b2: "fetch web_not_found ?tool (PyStr ''https://x/missing'') =
      Inl (RequestException ''404 Client Error: Not Found for url: https://x/missing'')"
    by (simp add: fetch_def web_not_found_def web_ok_def status_check_def)
  have b3: "is_Exception (RequestException ''404 Client Error: Not Found for url: https://x/missing'')"
    by simp
  have c1: "import_packages web_missing_packages = Some (ImportError ''No module named markdownify'')"
    by (simp add: web_missing_packages_def)
  have c2: "is_ImportError (ImportError ''No module named markdownify'')"
    by simp
  show ?thesis
    using visit_webpage_outcomes
        [of web_ok ?tool "PyStr ''https://x''" "''Title\<newline>\<newline>Body text''"]
      visit_webpage_outcomes
        [of web_not_found ?tool "PyStr ''https://x/missing''" _
          "RequestException ''404 Client Error: Not Found for url: https://x/missing''"]
      visit_webpage_outcomes
        [of web_missing_packages ?tool "PyStr ''https://x''" _ _
          "ImportError ''No module named markdownify''"]
      a1 a2 b1 b2 b3 c1 c2
    by simp
qed

text \<open>
  C6, as the claim states it, fails: with a package missing, the call raises
  \<^verbatim>\<open>ImportError\<close> to its caller.
\<close>

theorem visit_webpage_import_failure:
  "VisitWebpageTool_call web_missing_packages (VisitWebpageTool_init 40000) (PyStr ''https://x'') =
     Inl (ImportError import_message)"
  by (simp add: VisitWebpageTool_call_def web_missing_packages_def web_ok_def)

text \<open>
  C7, as the code has it. For every successful fetch (the imports, the GET, the status
  check and the conversion succeed) the converted text is stripped and every run of three
  or more line breaks is collapsed to exactly two, all else staying as it is, so that the
  collapsed text contains no three line breaks in a row; the call returns what
  \<^verbatim>\<open>truncate_content\<close> makes of the collapsed text. If the collapsed text has at most
  \<^verbatim>\<open>max_output_length\<close> characters, it is returned unchanged: the result then has at most
  \<^verbatim>\<open>max_output_length\<close> characters and no three line breaks in a row. A longer text is
  returned as its first \<^verbatim>\<open>max_output_length // 2\<close> characters, the truncation notice and
  its last characters, and that result is longer than \<^verbatim>\<open>max_output_length\<close>.
\<close>

theorem visit_webpage_success_collapsed_then_truncated:
  assumes "import_packages w = None"
    and "requests_get w url 20 = Inr response"
    and "raise_for_status w response = None"
    and "markdownify w (response_text response) = Inr converted"
    and "collapsed = re_sub_newlines (strip converted)"
    and "out = truncate_content collapsed (max_output_length self)"
  shows "VisitWebpageTool_call w self url = Inr out
     \<and> collapsed = collapse_line_breaks_spec (strip converted)
     \<and> \<not> has_triple_newline collapsed
     \<and> (int (length collapsed) \<le> max_output_length self \<longrightarrow>
          out = collapsed
          \<and> int (length out) \<le> max_output_length self
          \<and> \<not> has_triple_newline out
          \<and> \<not> (\<exists>xs ys. out = xs @ ''\<newline>\<newline>\<newline>'' @ ys))
     \<and> (max_output_length self < int (length collapsed) \<longrightarrow>
          out = slice_to collapsed (max_output_length self div 2) @
                truncation_notice (max_output_length self) @
                slice_from collapsed ((- max_output_length self) div 2)
          \<and> max_output_length self < int (length out))"
proof -
  have call: "VisitWebpageTool_call w self url = Inr out"
    using assms by (simp add: VisitWebpageTool_call_def fetch_def)
  have spec: "collapsed = collapse_line_breaks_spec (strip converted)"
    using assms(5) by (simp only: re_sub_newlines_spec)
  have nt: "\<not> has_triple_newline collapsed"
    using assms(5) by (simp only: no_triple_re_sub_newlines not_False_eq_True)
  have short: "out = collapsed
      \<and> int (length out) \<le> max_output_length self
      \<and> \<not> has_triple_newline out
      \<and> \<not> (\<exists>xs ys. out = xs @ ''\<newline>\<newline>\<newline>'' @ ys)"
    if le: "int (length collapsed) \<le> max_output_length self"
  proof -
    from le assms(6) have eq: "out = collapsed"
      by (simp add: truncate_content_short)
    with nt have "\<not> has_triple_newline out"
      by simp
    moreover from this have "\<not> (\<exists>xs ys. out = xs @ ''\<newline>\<newline>\<newline>'' @ ys)"
      unfolding has_triple_newline_iff .
    ultimately show ?thesis
      using eq le by simp
  qed
  have long: "out = slice_to collapsed (max_output_length self div 2) @
        truncation_notice (max_output_length self) @
        slice_from collapsed ((- max_output_length self) div 2)
      \<and> max_output_length self < int (length out)"
    if gt: "max_output_length self < int (length collapsed)"
  proof -
    from gt assms(6) have "out = slice_to collapsed (max_output_length self div 2) @
        truncation_notice (max_output_length self) @
        slice_from collapsed ((- max_output_length self) div 2)"
      by (simp add: truncate_content_def)
    moreover from gt assms(6) have "max_output_length self < int (length out)"
      by (simp only: truncate_content_long)
    ultimately show ?thesis by simp
  qed
  from call spec nt short long show ?thesis
    by blast
qed

theorem visit_webpage_success_collapsed_then_truncated_witness:
  "import_packages web_ok = None
   \<and> requests_get web_ok (PyStr ''https://x'') 20 =
       Inr \<lparr>status_code = 200, response_text = ''<h1>Title</h1><p>Body</p>''\<rparr>
   \<and> raise_for_status web_ok \<lparr>status_code = 200, response_text = ''<h1>Title</h1><p>Body</p>''\<rparr> =
       None
   \<and> markdownify web_ok
         (response_text \<lparr>status_code = 200, response_text = ''<h1>Title</h1><p>Body</p>''\<rparr>) =
       Inr ''  Title\<newline>\<newline>\<newline>\<newline>\<newline>Body text \<newline>''
   \<and> ''Title\<newline>\<newline>Body text'' =
       re_sub_newlines (strip ''  Title\<newline>\<newline>\<newline>\<newline>\<newline>Body text \<newline>'')
   \<and> ''Title\<newline>\<newline>Body text'' =
       collapse_line_breaks_spec (strip ''  Title\<newline>\<newline>\<newline>\<newline>\<newline>Body text \<newline>'')
   \<and> int (length ''Title\<newline>\<newline>Body text'') \<le> max_output_length (VisitWebpageTool_init 40000)
   \<and> VisitWebpageTool_call web_ok (VisitWebpageTool_init 40000) (PyStr ''https://x'') =
       Inr ''Title\<newline>\<newline>Body text''
   \<and> max_output_length (VisitWebpageTool_init 14) < int (length ''Title\<newline>\<newline>Body text'')
   \<and> VisitWebpageTool_call web_ok (VisitWebpageTool_init 14) (PyStr ''https://x'') =
       Inr ''Title\<newline>\<newline>\<newline>..._This content has been truncated to stay below 14 characters_...\<newline>dy text''
   \<and> max_output_length (VisitWebpageTool_init 14) < int (length
       ''Title\<newline>\<newline>\<newline>..._This content has been truncated to stay below 14 characters_...\<newline>dy text'')"
proof -
  let ?r = "\<lparr>status_code = 200, response_text = ''<h1>Title</h1><p>Body</p>''\<rparr>"
  let ?converted = "''  Title\<newline>\<newline>\<newline>\<newline>\<newline>Body text \<newline>''"
  let ?collapsed = "''Title\<newline>\<newline>Body text''"
  let ?cut = "''Title\<newline>\<newline>\<newline>..._This content has been truncated to stay below 14 characters_...\<newline>dy text''"
  have h1: "import_packages web_ok = None"
    by (simp add: web_ok_def)
  have h2: "requests_get web_ok (PyStr ''https://x'') 20 = Inr ?r"
    by (simp add: web_ok_def)
  have h3: "raise_for_status web_ok ?r = None"
    by (simp add: web_ok_def status_check_def)
  have h4: "markdownify web_ok (response_text ?r) = Inr ?converted"
    by (simp add: web_ok_def)
  have h5: "?collapsed = re_sub_newlines (strip ?converted)"
    by (simp only: web_ok_collapsed)
  have h6: "?collapsed = truncate_content ?collapsed (max_output_length (VisitWebpageTool_init 40000))"
    by (simp add: truncate_content_def VisitWebpageTool_init_def)
  have h7: "?cut = truncate_content ?collapsed (max_output_length (VisitWebpageTool_init 14))"
    by (simp only: web_ok_truncated VisitWebpageTool_init_def VisitWebpageTool.simps)
  have short: "int (length ?collapsed) \<le> max_output_length (VisitWebpageTool_init 40000)"
    by (simp add: VisitWebpageTool_init_def)
  have long: "max_output_length (VisitWebpageTool_init 14) < int (length ?collapsed)"
    by (simp add: VisitWebpageTool_init_def)
  note a = visit_webpage_success_collapsed_then_truncated [OF h1 h2 h3 h4 h5 h6]
  note b = visit_webpage_success_collapsed_then_truncated [OF h1 h2 h3 h4 h5 h7]
  have a_call: "VisitWebpageTool_call web_ok (VisitWebpageTool_init 40000) (PyStr ''https://x'') =
      Inr ?collapsed"
    by (rule conjunct1 [OF a])
  have a_spec: "?collapsed = collapse_line_breaks_spec (strip ?converted)"
    by (rule conjunct1 [OF conjunct2 [OF a]])
  have b_call: "VisitWebpageTool_call web_ok (VisitWebpageTool_init 14) (PyStr ''https://x'') =
      Inr ?cut"
    by (rule conjunct1 [OF b])
  have b_long: "max_output_length (VisitWebpageTool_init 14) < int (length ?cut)"
    using b long by blast
  show ?thesis
    by (intro conjI) (fact h1 h2 h3 h4 h5 a_spec short a_call long b_call b_long)+
qed

text \<open>
  C7, as the claim states it, fails: with \<^verbatim>\<open>max_output_length\<close> 14, a page whose collapsed
  text has 16 characters is returned as 83 characters, among them three line breaks in a
  row where the notice follows the kept beginning.
\<close>

theorem visit_webpage_truncation_exceeds_limit:
  "VisitWebpageTool_call web_ok (VisitWebpageTool_init 14) (PyStr ''https://x'') =
     Inr ''Title\<newline>\<newline>\<newline>..._This content has been truncated to stay below 14 characters_...\<newline>dy text''
   \<and> length ''Title\<newline>\<newline>\<newline>..._This content has been truncated to stay below 14 characters_...\<newline>dy text'' = 83
   \<and> has_triple_newline
       ''Title\<newline>\<newline>\<newline>..._This content has been truncated to stay below 14 characters_...\<newline>dy text''"
  by (simp add: VisitWebpageTool_call_def fetch_def web_ok_def status_check_def
      VisitWebpageTool_init_def web_ok_collapsed web_ok_truncated is_nl_def)

text \<open>
  C8. For every URL whose GET raises a timeout (the GET is reached, so the imports have
  succeeded), the call returns exactly the literal string
  "The request timed out. Please try again later or check the URL.".
\<close>

theorem visit_webpage_timeout:
  assumes "import_packages w = None"
    and "requests_get w url 20 = Inl (Timeout m)"
  shows "VisitWebpageTool_call w self url =
     Inr ''The request timed out. Please try again later or check the URL.''"
  using assms by (simp add: VisitWebpageTool_call_def fetch_def timeout_message_def)

theorem visit_webpage_timeout_witness:
  "import_packages web_timeout = None
   \<and> requests_get web_timeout (PyStr ''https://x'') 20 = Inl (Timeout ''Read timed out.'')
   \<and> VisitWebpageTool_call web_timeout (VisitWebpageTool_init 40000) (PyStr ''https://x'') =
       Inr ''The request timed out. Please try again later or check the URL.''"
proof -
  have h1: "import_packages web_timeout = None"
    by (simp add: web_timeout_def web_ok_def)
  have h2: "requests_get web_timeout (PyStr ''https://x'') 20 = Inl (Timeout ''Read timed out.'')"
    by (simp add: web_timeout_def)
  show ?thesis
    using visit_webpage_timeout [OF h1 h2] h1 h2 by simp
qed

subsection \<open>Arguments and the declared schema\<close>

text \<open>
  C9, as the code has it. No tool checks its argument against the declared input schema:
  the argument, of whatever type, is handed to the backend as it is, so on two arguments
  that the backend answers alike a tool gives the same result, and the final-answer
  tool returns any argument.
\<close>

theorem argument_passed_unchecked:
  "(ddgs_text d q (ddg_max_results d) = ddgs_text d q' (ddg_max_results d) \<longrightarrow>
      fst (DuckDuckGoSearchTool_call d q) = fst (DuckDuckGoSearchTool_call d q'))
   \<and> (client_search t q = client_search t q' \<longrightarrow>
        fst (TavilySearchTool_call t q) = fst (TavilySearchTool_call t q'))
   \<and> (ddgs_text (ddg s) q (ddg_max_results (ddg s)) = ddgs_text (ddg s) q' (ddg_max_results (ddg s))
        \<and> (case tavily s of None \<Rightarrow> True | Some k \<Rightarrow> client_search k q = client_search k q') \<longrightarrow>
        fst (WebSearchTool_call s q) = fst (WebSearchTool_call s q'))
   \<and> (requests_get w q 20 = requests_get w q' 20 \<longrightarrow>
        VisitWebpageTool_call w v q = VisitWebpageTool_call w v q')
   \<and> FinalAnswerTool_call q = q"
proof (intro conjI impI)
  assume "ddgs_text d q (ddg_max_results d) = ddgs_text d q' (ddg_max_results d)"
  then show "fst (DuckDuckGoSearchTool_call d q) = fst (DuckDuckGoSearchTool_call d q')"
    by (simp only: fst_DuckDuckGoSearchTool_call)
next
  assume "client_search t q = client_search t q'"
  then show "fst (TavilySearchTool_call t q) = fst (TavilySearchTool_call t q')"
    by (rule tavily_same_answer)
next
  assume a: "ddgs_text (ddg s) q (ddg_max_results (ddg s)) =
      ddgs_text (ddg s) q' (ddg_max_results (ddg s))
    \<and> (case tavily s of None \<Rightarrow> True | Some k \<Rightarrow> client_search k q = client_search k q')"
  then have p: "fst (DuckDuckGoSearchTool_call (ddg s) q) = fst (DuckDuckGoSearchTool_call (ddg s) q')"
    by (simp only: fst_DuckDuckGoSearchTool_call)
  show "fst (WebSearchTool_call s q) = fst (WebSearchTool_call s q')"
  proof (cases "tavily s")
    case None
    show ?thesis by (simp only: fst_WebSearchTool_call p None option.case)
  next
    case (Some k)
    with a have "client_search k q = client_search k q'"
      by simp
    then have k: "fst (TavilySearchTool_call k q) = fst (TavilySearchTool_call k q')"
      by (rule tavily_same_answer)
    show ?thesis by (simp only: fst_WebSearchTool_call p Some option.case k)
  qed
next
  assume "requests_get w q 20 = requests_get w q' 20"
  then have "fetch w v q = fetch w v q'"
    by (simp only: fetch_def)
  then show "VisitWebpageTool_call w v q = VisitWebpageTool_call w v q'"
    by (simp only: VisitWebpageTool_call_def)
next
  show "FinalAnswerTool_call q = q"
    by (simp add: FinalAnswerTool_call_def)
qed

theorem argument_passed_unchecked_witness:
  "ddgs_text \<lparr>ddg_max_results = 10, ddgs_text = ddgs_paris\<rparr> (PyInt 5) 10 =
     ddgs_text \<lparr>ddg_max_results = 10, ddgs_text = ddgs_paris\<rparr> (PyStr ''5'') 10
   \<and> fst (DuckDuckGoSearchTool_call \<lparr>ddg_max_results = 10, ddgs_text = ddgs_paris\<rparr> (PyInt 5)) =
     fst (DuckDuckGoSearchTool_call \<lparr>ddg_max_results = 10, ddgs_text = ddgs_paris\<rparr> (PyStr ''5''))
   \<and> client_search \<lparr>tavily_max_results = 10, client_search = tavily_no_match ''key''\<rparr> (PyInt 5) =
     client_search \<lparr>tavily_max_results = 10, client_search = tavily_no_match ''key''\<rparr> (PyStr ''5'')
   \<and> fst (TavilySearchTool_call
        \<lparr>tavily_max_results = 10, client_search = tavily_no_match ''key''\<rparr> (PyInt 5)) =
     fst (TavilySearchTool_call
        \<lparr>tavily_max_results = 10, client_search = tavily_no_match ''key''\<rparr> (PyStr ''5''))
   \<and> fst (WebSearchTool_call (WebSearchTool_init ddgs_paris tavily_no_match 10 (Some ''key''))
        (PyInt 5)) =
     fst (WebSearchTool_call (WebSearchTool_init ddgs_paris tavily_no_match 10 (Some ''key''))
        (PyStr ''5''))
   \<and> requests_get web_ok (PyInt 5) 20 = requests_get web_ok (PyStr ''5'') 20
   \<and> VisitWebpageTool_call web_ok (VisitWebpageTool_init 12) (PyInt 5) =
     VisitWebpageTool_call web_ok (VisitWebpageTool_init 12) (PyStr ''5'')"
proof -
  let ?d = "\<lparr>ddg_max_results = 10, ddgs_text = ddgs_paris\<rparr>"
  let ?t = "\<lparr>tavily_max_results = 10, client_search = tavily_no_match ''key''\<rparr>"
  let ?s = "WebSearchTool_init ddgs_paris tavily_no_match 10 (Some ''key'')"
  have h1: "ddgs_text ?d (PyInt 5) (ddg_max_results ?d) = ddgs_text ?d (PyStr ''5'') (ddg_max_results ?d)"
    by (simp add: ddgs_paris_def)
  have h2: "client_search ?t (PyInt 5) = client_search ?t (PyStr ''5'')"
    by (simp add: tavily_no_match_def)
  have h3: "ddgs_text (ddg ?s) (PyInt 5) (ddg_max_results (ddg ?s)) =
      ddgs_text (ddg ?s) (PyStr ''5'') (ddg_max_results (ddg ?s))
      \<and> (case tavily ?s of None \<Rightarrow> True
          | Some k \<Rightarrow> client_search k (PyInt 5) = client_search k (PyStr ''5''))"
    by (simp add: WebSearchTool_init_def ddgs_paris_def tavily_no_match_def)
  have h4: "requests_get web_ok (PyInt 5) 20 = requests_get web_ok (PyStr ''5'') 20"
    by (simp add: web_ok_def)
  show ?thesis
    using argument_passed_unchecked
        [of ?d "PyInt 5" "PyStr ''5''" ?t ?s web_ok "VisitWebpageTool_init 12"]
      h1 h2 h3 h4
    by simp
qed

text \<open>
  C9, as the claim states it, fails: the schema of the DuckDuckGo search tool declares
  \<^verbatim>\<open>query\<close> a string, yet called on the integer 5 the tool raises no error; it sends 5 to
  the backend and returns the formatted results.
\<close>

theorem schema_mismatch_accepted:
  "map_of (inputs DuckDuckGoSearchTool_descriptor) ''query'' =
     Some [(''type'', ''string''), (''description'', ''The search query to perform.'')]
   \<and> \<not> is_PyStr (PyInt 5)
   \<and> DuckDuckGoSearchTool_call \<lparr>ddg_max_results = 10, ddgs_text = ddgs_paris\<rparr> (PyInt 5) =
     (Inr ''## Search Results\<newline>\<newline>[Paris](https://x)\<newline>Paris is the capital'',
      [DDGS_text (PyInt 5) 10])"
  by (simp add: DuckDuckGoSearchTool_descriptor_def DuckDuckGoSearchTool_call_def ddgs_paris_def
      ddg_format_def ddg_entry_def getitem_def paris_def heading_def)

subsection \<open>The final-answer tool\<close>

text \<open>
  C10. For every input value, of any type, the call of the final-answer tool returns
  that value unchanged.
\<close>

theorem FinalAnswerTool_identity: "FinalAnswerTool_call answer = answer"
  by (simp add: FinalAnswerTool_call_def)

end
